theory Spec2Isabelle
  imports Main
begin

section \<open>Tensors\<close>

text \<open>
  The module \<^verbatim>\<open>gemini_torch/utils.py\<close> is a single \<^verbatim>\<open>torch.nn.Module\<close>. What it
  computes on the elements of a tensor is floating-point work of torch's kernels; what
  it decides itself are shapes, the order of the operations and the exceptions. A tensor
  is therefore its shape together with a term that records which kernels produced its
  elements from which given tensors. The kernels stay uninterpreted: two tensors with
  the same term hold the same elements whatever the kernels compute.

  \<open>Given\<close> is a tensor the caller hands in; \<open>Zeros\<close> and \<open>Ones\<close> are constant
  fills; \<open>Uniform g\<close> and \<open>Normal g\<close> are draw number \<open>g\<close> of the random generator
  (the initialisation of a linear layer, \<^verbatim>\<open>torch.randn\<close>); \<open>Unfolded\<close> and \<open>Permuted\<close>
  rearrange elements; \<open>Affine w b x\<close> is a linear layer applied to \<open>x\<close>;
  \<open>BatchStat w b x\<close> normalises \<open>x\<close> by its own batch statistics, \<open>RunningStat w b m v x\<close>
  by the running mean \<open>m\<close> and variance \<open>v\<close>; \<open>MomentumMean\<close> and \<open>MomentumVar\<close>
  are the running statistics after a training batch; \<open>Rectified\<close> is the activation.
\<close>

datatype content =
    Given string
  | Zeros
  | Ones
  | Uniform nat
  | Normal nat
  | Unfolded nat nat nat content
  | Permuted "nat list" content
  | Affine content content content
  | BatchStat content content content
  | RunningStat content content content content content
  | MomentumMean content content
  | MomentumVar content content
  | Rectified content

record tensor =
  shape :: "nat list"
  content :: content

definition numel :: "tensor \<Rightarrow> nat" where
  "numel t = prod_list (shape t)"

section \<open>Exceptions, the log of executed operations, and sequencing\<close>

text \<open>
  Python's exception classes. A \<^verbatim>\<open>ValueError\<close> says why it was raised: a tuple
  unpacked into the wrong number of names (names expected, values got), or an input the
  batch normalisation refuses. \<^verbatim>\<open>AssertionError\<close> carries the message of the
  \<^verbatim>\<open>assert\<close> statement; \<^verbatim>\<open>TypeError\<close> the required argument a call left out;
  \<^verbatim>\<open>AttributeError\<close> the attribute that does not exist; \<^verbatim>\<open>IndexError\<close> and
  \<^verbatim>\<open>RuntimeError\<close> the tensor primitive that refused its input.
\<close>

datatype value_reason =
    NotEnoughValues nat nat
  | TooManyValues nat
  | NotRank2or3 nat
  | OneValuePerChannel

datatype error =
    ValueError value_reason
  | AssertionError string
  | ZeroDivisionError
  | TypeError string
  | AttributeError string
  | IndexError string
  | RuntimeError string

text \<open>
  An event is logged when a statement of \<^verbatim>\<open>forward\<close> starts to run, or when a tensor
  primitive starts to run with its arguments bound. A call that fails while its arguments
  are bound (a missing argument, an attribute that does not exist) logs nothing.
\<close>

datatype event =
    Destructure
  | AssertDivisible
  | UnfoldCall nat
  | ContiguousCall
  | ViewCall
  | PermuteCall
  | LinearCall nat nat
  | BatchNormCall
  | ReLUCall
  | Construct
  | RandnCall
  | PrintCall "nat list"

record linear =
  in_features :: nat
  out_features :: nat
  weight :: tensor
  bias :: tensor

record batchnorm1d =
  num_features :: nat
  bn_weight :: tensor
  bn_bias :: tensor
  running_mean :: tensor
  running_var :: tensor
  num_batches_tracked :: nat

record ImgToTransformer =
  patches :: nat
  patch_size :: nat
  transformer_dim :: nat
  img_channels :: nat
  seq_len :: nat
  reduced_dim :: nat
  num_patches_side :: nat
  patch_embedding :: linear
  dim_reduction :: linear
  norm :: batchnorm1d
  positional_encoding :: tensor
  token_mixer :: linear
  seq_expansion :: linear
  training :: bool

text \<open>
  A run has the module (\<^verbatim>\<open>self\<close>, whose normalisation buffers a call may update) and
  the log as its state. An exception ends the run and keeps the state reached.
\<close>

record state =
  self :: ImgToTransformer
  trace :: "event list"

type_synonym 'v exec = "state \<Rightarrow> (error + 'v) \<times> state"

definition exec_return :: "'v \<Rightarrow> 'v exec" where
  "exec_return v s = (Inr v, s)"

definition exec_raise :: "error \<Rightarrow> 'v exec" where
  "exec_raise e s = (Inl e, s)"

definition exec_bind :: "'v exec \<Rightarrow> ('v \<Rightarrow> 'w exec) \<Rightarrow> 'w exec" where
  "exec_bind p f s = (case p s of (Inl e, s') \<Rightarrow> (Inl e, s') | (Inr v, s') \<Rightarrow> f v s')"

definition emit :: "event \<Rightarrow> unit exec" where
  "emit ev s = (Inr (), s\<lparr>trace := trace s @ [ev]\<rparr>)"

definition attr :: "(ImgToTransformer \<Rightarrow> 'v) \<Rightarrow> 'v exec" where
  "attr field s = (Inr (field (self s)), s)"

definition lift :: "error + 'v \<Rightarrow> 'v exec" where
  "lift r s = (r, s)"

section \<open>The tensor primitives the module calls\<close>

text \<open>
  The shapes follow torch's documentation of \<^verbatim>\<open>Tensor.unfold\<close>, \<^verbatim>\<open>Tensor.view\<close>,
  \<^verbatim>\<open>Tensor.permute\<close>, \<^verbatim>\<open>nn.Linear\<close>, \<^verbatim>\<open>nn.BatchNorm1d\<close> and \<^verbatim>\<open>nn.ReLU\<close>.
  Every tensor is taken to be laid out contiguously, so \<^verbatim>\<open>contiguous\<close> changes nothing
  and \<^verbatim>\<open>view\<close> depends on the number of elements only.
\<close>

definition unfold_shape :: "nat list \<Rightarrow> nat \<Rightarrow> nat \<Rightarrow> nat \<Rightarrow> error + nat list" where
  "unfold_shape sh d sz step =
     (if sh = [] then
        (if d \<noteq> 0 then Inl (IndexError ''unfold'')
         else if 1 < sz then Inl (RuntimeError ''unfold'')
         else if step = 0 then Inl (RuntimeError ''unfold'')
         else Inr [sz])
      else if length sh \<le> d then Inl (IndexError ''unfold'')
      else if sh ! d < sz then Inl (RuntimeError ''unfold'')
      else if step = 0 then Inl (RuntimeError ''unfold'')
      else Inr (sh[d := (sh ! d - sz) div step + 1] @ [sz]))"

text \<open>
  \<^verbatim>\<open>unfold(dimension, size, step)\<close> has three required arguments. The step is an
  option here because the source's first call passes two: \<open>None\<close> is the argument left
  out, which torch's argument parser answers with a \<^verbatim>\<open>TypeError\<close> before anything runs.
\<close>

definition unfold :: "tensor \<Rightarrow> nat \<Rightarrow> nat \<Rightarrow> nat option \<Rightarrow> tensor exec" where
  "unfold t d sz step =
     (case step of
        None \<Rightarrow> exec_raise (TypeError ''step'')
      | Some st \<Rightarrow>
          exec_bind (emit (UnfoldCall d)) (\<lambda>_.
          exec_bind (lift (unfold_shape (shape t) d sz st)) (\<lambda>sh.
          exec_return \<lparr>shape = sh, content = Unfolded d sz st (content t)\<rparr>)))"

definition contiguous :: "tensor \<Rightarrow> tensor exec" where
  "contiguous t = exec_bind (emit ContiguousCall) (\<lambda>_. exec_return t)"

text \<open>
  \<^verbatim>\<open>view\<close> takes Python integers; one of them may be \<open>-1\<close>, the dimension to infer
  from the number \<open>n\<close> of elements.
\<close>

definition view_shape :: "nat \<Rightarrow> int list \<Rightarrow> error + nat list" where
  "view_shape n req =
     (if list_ex (\<lambda>d. d < - 1) req then Inl (RuntimeError ''view'')
      else if 1 < count_list req (- 1) then Inl (RuntimeError ''view'')
      else
        (let known = prod_list (map nat (filter (\<lambda>d. d \<noteq> - 1) req)) in
         if count_list req (- 1) = 0 then
           (if known = n then Inr (map nat req) else Inl (RuntimeError ''view''))
         else if known = 0 then Inl (RuntimeError ''view'')
         else if n mod known = 0 then
           Inr (map (\<lambda>d. if d = - 1 then n div known else nat d) req)
         else Inl (RuntimeError ''view'')))"

definition view :: "tensor \<Rightarrow> int list \<Rightarrow> tensor exec" where
  "view t req =
     exec_bind (emit ViewCall) (\<lambda>_.
     exec_bind (lift (view_shape (numel t) req)) (\<lambda>sh.
     exec_return (t\<lparr>shape := sh\<rparr>)))"

text \<open>
  \<^verbatim>\<open>permute\<close> wants as many dimensions as the tensor has, then walks them in order:
  a dimension out of range is an \<^verbatim>\<open>IndexError\<close>, one seen before a \<^verbatim>\<open>RuntimeError\<close>.
\<close>

primrec permute_walk :: "nat \<Rightarrow> nat list \<Rightarrow> nat list \<Rightarrow> error option" where
  "permute_walk r seen [] = None"
| "permute_walk r seen (d # ds) =
     (if r \<le> d then Some (IndexError ''permute'')
      else if d \<in> set seen then Some (RuntimeError ''permute'')
      else permute_walk r (d # seen) ds)"

definition permute_shape :: "nat list \<Rightarrow> nat list \<Rightarrow> error + nat list" where
  "permute_shape sh dims =
     (if length dims \<noteq> length sh then Inl (RuntimeError ''permute'')
      else case permute_walk (length sh) [] dims of
             Some e \<Rightarrow> Inl e
           | None \<Rightarrow> Inr (map (\<lambda>d. sh ! d) dims))"

definition permute :: "tensor \<Rightarrow> nat list \<Rightarrow> tensor exec" where
  "permute t dims =
     exec_bind (emit PermuteCall) (\<lambda>_.
     exec_bind (lift (permute_shape (shape t) dims)) (\<lambda>sh.
     exec_return \<lparr>shape = sh, content = Permuted dims (content t)\<rparr>))"

definition linear_shape :: "linear \<Rightarrow> nat list \<Rightarrow> error + nat list" where
  "linear_shape l sh =
     (if sh = [] then Inl (RuntimeError ''linear'')
      else if last sh \<noteq> in_features l then Inl (RuntimeError ''linear'')
      else Inr (butlast sh @ [out_features l]))"

text \<open>Calling a linear layer of the module: \<^verbatim>\<open>self.layer(x)\<close>.\<close>

definition call_linear :: "(ImgToTransformer \<Rightarrow> linear) \<Rightarrow> tensor \<Rightarrow> tensor exec" where
  "call_linear layer x =
     exec_bind (attr layer) (\<lambda>l.
     exec_bind (emit (LinearCall (in_features l) (out_features l))) (\<lambda>_.
     exec_bind (lift (linear_shape l (shape x))) (\<lambda>sh.
     exec_return
       \<lparr>shape = sh, content = Affine (content (weight l)) (content (bias l)) (content x)\<rparr>)))"

text \<open>
  \<^verbatim>\<open>nn.BatchNorm1d\<close> checks the rank of its input, then, in training mode, counts the
  batch before it normalises: the counter moves even when the normalisation then
  refuses the input. A tensor with no elements is handed back before the channels are
  compared with the layer's, scaled and shifted by the first entry of the weight and of
  the bias (an \<^verbatim>\<open>IndexError\<close> when the layer has no features); the running statistics
  stay as they are. Otherwise, in training mode the batch's own statistics normalise
  the input and the running statistics are updated; in evaluation mode the running
  statistics normalise it and nothing of the module changes.
\<close>

definition set_norm :: "batchnorm1d \<Rightarrow> unit exec" where
  "set_norm bn s = (Inr (), s\<lparr>self := (self s)\<lparr>norm := bn\<rparr>\<rparr>)"

definition call_norm :: "tensor \<Rightarrow> tensor exec" where
  "call_norm x =
     exec_bind (emit BatchNormCall) (\<lambda>_.
     exec_bind (attr norm) (\<lambda>bn.
     exec_bind (attr training) (\<lambda>tr.
     if length (shape x) \<noteq> 2 \<and> length (shape x) \<noteq> 3
     then exec_raise (ValueError (NotRank2or3 (length (shape x))))
     else if tr then
       exec_bind (set_norm (bn\<lparr>num_batches_tracked := num_batches_tracked bn + 1\<rparr>)) (\<lambda>_.
       if prod_list (hd (shape x) # drop 2 (shape x)) = 1
       then exec_raise (ValueError OneValuePerChannel)
       else if numel x = 0 then
         (if num_features bn = 0 then exec_raise (IndexError ''batch_norm'')
          else exec_return x)
       else if shape x ! 1 \<noteq> num_features bn then exec_raise (RuntimeError ''batch_norm'')
       else
         exec_bind (set_norm (bn
           \<lparr>running_mean := (running_mean bn)
              \<lparr>content := MomentumMean (content (running_mean bn)) (content x)\<rparr>,
            running_var := (running_var bn)
              \<lparr>content := MomentumVar (content (running_var bn)) (content x)\<rparr>,
            num_batches_tracked := num_batches_tracked bn + 1\<rparr>)) (\<lambda>_.
         exec_return
           (x\<lparr>content :=
              BatchStat (content (bn_weight bn)) (content (bn_bias bn)) (content x)\<rparr>)))
     else if numel x = 0 then
       (if num_features bn = 0 then exec_raise (IndexError ''batch_norm'')
        else exec_return x)
     else if shape x ! 1 \<noteq> num_features bn then exec_raise (RuntimeError ''batch_norm'')
     else
       exec_return
         (x\<lparr>content :=
            RunningStat (content (bn_weight bn)) (content (bn_bias bn))
              (content (running_mean bn)) (content (running_var bn)) (content x)\<rparr>))))"

definition relu :: "tensor \<Rightarrow> tensor exec" where
  "relu x = exec_bind (emit ReLUCall) (\<lambda>_. exec_return (x\<lparr>content := Rectified (content x)\<rparr>))"

section \<open>The module: construction\<close>

text \<open>
  \<^verbatim>\<open>int(patches**0.5)\<close> is the integer part of the square root. The root is taken
  in double precision, whose rounding cannot reach the next integer for a patch count
  below \<open>2 ^ 52\<close>; on that range the truncated root is \<open>floor_sqrt\<close>. From there on
  the double can round up to the next integer (\<open>2 ^ 52 + 2 ^ 27\<close> gives 67108865, one
  more than \<open>floor_sqrt\<close>), so \<open>num_patches_side\<close> of a module built by \<open>init\<close> is the
  code's for patch counts below \<open>2 ^ 52\<close> only. The patch counts used below are 4 and 16.
\<close>

primrec sqrt_down :: "nat \<Rightarrow> nat \<Rightarrow> nat" where
  "sqrt_down n 0 = 0"
| "sqrt_down n (Suc k) = (if Suc k * Suc k \<le> n then Suc k else sqrt_down n k)"

definition floor_sqrt :: "nat \<Rightarrow> nat" where
  "floor_sqrt n = sqrt_down n n"

text \<open>
  \<^verbatim>\<open>nn.Linear(n_in, n_out)\<close> owns a weight of shape \<open>[n_out, n_in]\<close> and a bias of shape
  \<open>[n_out]\<close>, both drawn from the random generator, whose state \<open>g\<close> counts the draws.
  \<^verbatim>\<open>nn.BatchNorm1d(n)\<close> owns a learnable weight and bias of shape \<open>[n]\<close> and, as buffers
  that are not parameters, the running mean, the running variance and a batch counter.
\<close>

definition new_linear :: "nat \<Rightarrow> nat \<Rightarrow> nat \<Rightarrow> linear \<times> nat" where
  "new_linear n_in n_out g =
     (\<lparr>in_features = n_in, out_features = n_out,
       weight = \<lparr>shape = [n_out, n_in], content = Uniform g\<rparr>,
       bias = \<lparr>shape = [n_out], content = Uniform (g + 1)\<rparr>\<rparr>, g + 2)"

definition new_batchnorm1d :: "nat \<Rightarrow> batchnorm1d" where
  "new_batchnorm1d n =
     \<lparr>num_features = n,
      bn_weight = \<lparr>shape = [n], content = Ones\<rparr>,
      bn_bias = \<lparr>shape = [n], content = Zeros\<rparr>,
      running_mean = \<lparr>shape = [n], content = Zeros\<rparr>,
      running_var = \<lparr>shape = [n], content = Ones\<rparr>,
      num_batches_tracked = 0\<rparr>"

text \<open>
  \<^verbatim>\<open>ImgToTransformer.__init__\<close>. The activation \<^verbatim>\<open>nn.ReLU()\<close> has no state and is the
  function \<open>relu\<close>; a new module is in training mode. No attribute \<^verbatim>\<open>num_patches\<close> is
  assigned.
\<close>

definition init :: "nat \<Rightarrow> nat \<Rightarrow> nat \<Rightarrow> nat \<Rightarrow> nat \<Rightarrow> nat \<Rightarrow> nat \<Rightarrow> ImgToTransformer \<times> nat" where
  "init patches' patch_size' transformer_dim' img_channels' seq_len' reduced_dim' g =
     (let (pe, g1) = new_linear (patch_size' * patch_size' * img_channels') transformer_dim' g;
          (dr, g2) = new_linear transformer_dim' reduced_dim' g1;
          (tm, g3) = new_linear (patches' * reduced_dim') (patches' * reduced_dim') g2;
          (se, g4) = new_linear (patches' * reduced_dim') (seq_len' * reduced_dim') g3
      in (\<lparr>patches = patches', patch_size = patch_size', transformer_dim = transformer_dim',
            img_channels = img_channels', seq_len = seq_len', reduced_dim = reduced_dim',
            num_patches_side = floor_sqrt patches',
            patch_embedding = pe,
            dim_reduction = dr,
            norm = new_batchnorm1d patches',
            positional_encoding = \<lparr>shape = [1, patches', reduced_dim'], content = Zeros\<rparr>,
            token_mixer = tm,
            seq_expansion = se,
            training = True\<rparr>, g4))"

text \<open>
  The learnable parameters, as \<^verbatim>\<open>nn.Module.parameters()\<close> lists them: the module's own
  parameter first, then those of its submodules in the order of their assignment.
\<close>

definition linear_parameters :: "linear \<Rightarrow> tensor list" where
  "linear_parameters l = [weight l, bias l]"

definition parameters :: "ImgToTransformer \<Rightarrow> tensor list" where
  "parameters m =
     positional_encoding m #
     linear_parameters (patch_embedding m) @
     linear_parameters (dim_reduction m) @
     [bn_weight (norm m), bn_bias (norm m)] @
     linear_parameters (token_mixer m) @
     linear_parameters (seq_expansion m)"

definition num_parameters :: "ImgToTransformer \<Rightarrow> nat" where
  "num_parameters m = sum_list (map numel (parameters m))"

section \<open>The module: forward\<close>

text \<open>
  \<^verbatim>\<open>batch, channels, height, width, height = x.shape\<close>: five names, so the shape must
  have five entries; \<^verbatim>\<open>height\<close> is bound twice and keeps the fifth.
\<close>

definition unpack5 :: "nat list \<Rightarrow> (nat \<times> nat \<times> nat \<times> nat \<times> nat) exec" where
  "unpack5 xs =
     exec_bind (emit Destructure) (\<lambda>_.
     if length xs < 5 then exec_raise (ValueError (NotEnoughValues 5 (length xs)))
     else if 5 < length xs then exec_raise (ValueError (TooManyValues 5))
     else exec_return (xs ! 0, xs ! 1, xs ! 2, xs ! 3, xs ! 4))"

definition py_mod :: "nat \<Rightarrow> nat \<Rightarrow> error + nat" where
  "py_mod a b = (if b = 0 then Inl ZeroDivisionError else Inr (a mod b))"

definition assert_stmt :: "bool \<Rightarrow> string \<Rightarrow> unit exec" where
  "assert_stmt c msg = (if c then exec_return () else exec_raise (AssertionError msg))"

text \<open>The attribute \<^verbatim>\<open>self.num_patches\<close>, which the constructor never assigns.\<close>

definition num_patches :: "nat exec" where
  "num_patches = exec_raise (AttributeError ''num_patches'')"

definition divisible_msg :: string where
  "divisible_msg = ''Image dimensions must be divisivle by the square root of patches''"

definition forward :: "tensor \<Rightarrow> tensor exec" where
  "forward x =
     exec_bind (unpack5 (shape x)) (\<lambda>(batch, channels, height0, width, height).
     exec_bind (emit AssertDivisible) (\<lambda>_.
     exec_bind (attr num_patches_side) (\<lambda>side.
     exec_bind (lift (py_mod height side)) (\<lambda>hr.
     exec_bind (if hr = 0
                then exec_bind (lift (py_mod width side)) (\<lambda>wr. exec_return (wr = 0))
                else exec_return False) (\<lambda>ok.
     exec_bind (assert_stmt ok divisible_msg) (\<lambda>_.
     exec_bind (attr patch_size) (\<lambda>ps.
     exec_bind (unfold x 2 ps None) (\<lambda>x.
     exec_bind (unfold x 3 ps (Some ps)) (\<lambda>x.
     exec_bind (contiguous x) (\<lambda>x.
     exec_bind num_patches (\<lambda>np.
     exec_bind (view x [int batch, int channels, int np, - 1]) (\<lambda>x.
     exec_bind (permute x [0, 2, 1, 3]) (\<lambda>x.
     exec_bind (contiguous x) (\<lambda>x.
     exec_bind num_patches (\<lambda>np.
     exec_bind (view x [int batch, int np, - 1]) (\<lambda>x.
     exec_bind (call_linear patch_embedding x) (\<lambda>x.
     exec_bind (call_linear dim_reduction x) (\<lambda>x.
     exec_bind (call_norm x) (\<lambda>x.
     exec_bind (relu x) (\<lambda>x.
     exec_bind (view x [int batch, - 1]) (\<lambda>x.
     exec_bind (call_linear token_mixer x) (\<lambda>x.
     exec_bind num_patches (\<lambda>np.
     exec_bind (view x [int batch, int np, - 1]) (\<lambda>x.
     exec_bind (call_linear seq_expansion x) (\<lambda>x.
     exec_bind (attr seq_len) (\<lambda>sl.
     exec_bind (view x [int batch, int sl, - 1]) (\<lambda>x.
     exec_return x)))))))))))))))))))))))))))"

section \<open>The module-level example\<close>

text \<open>
  The statements after the class run when the file is loaded: they construct a module,
  draw a dummy image, call the module on it and print the shape of the result.
\<close>

definition randn :: "nat list \<Rightarrow> nat \<Rightarrow> tensor \<times> nat" where
  "randn sh g = (\<lparr>shape = sh, content = Normal g\<rparr>, g + 1)"

definition print_shape :: "tensor \<Rightarrow> unit exec" where
  "print_shape t = emit (PrintCall (shape t))"

definition module_level :: "nat \<Rightarrow> (error + unit) \<times> state" where
  "module_level g =
     (let num_patches' = 16; patch_size' = 16; transformer_dim' = 512; img_channels' = 3;
          seq_len' = 50000; reduced_dim' = 256;
          (model, g1) =
            init num_patches' patch_size' transformer_dim' img_channels' seq_len' reduced_dim' g;
          (dummy_img, g2) = randn [1, 3, 64, 64] g1
      in exec_bind (forward dummy_img) (\<lambda>seq_space_output. print_shape seq_space_output)
           \<lparr>self = model, trace = [Construct, RandnCall]\<rparr>)"

section \<open>Fixtures and the parameter count as the specification words it\<close>

text \<open>The module of the class docstring's example, and a state with an empty log.\<close>

definition docstring_model :: ImgToTransformer where
  "docstring_model = fst (init 16 16 512 3 128 128 0)"

definition fresh :: "ImgToTransformer \<Rightarrow> state" where
  "fresh m = \<lparr>self = m, trace = []\<rparr>"

text \<open>
  The count the specification gives: over the linear layers, (in_features + 1) times
  out_features, plus the number of elements of the positional encoding.
\<close>

definition linear_count :: "linear \<Rightarrow> nat" where
  "linear_count l = (in_features l + 1) * out_features l"

definition linear_layers :: "ImgToTransformer \<Rightarrow> linear list" where
  "linear_layers m = [patch_embedding m, dim_reduction m, token_mixer m, seq_expansion m]"

definition claimed_parameter_count :: "ImgToTransformer \<Rightarrow> nat" where
  "claimed_parameter_count m =
     sum_list (map linear_count (linear_layers m)) + numel (positional_encoding m)"

section \<open>Sequencing laws\<close>

lemma exec_bind_raise: "exec_bind (exec_raise e) f = exec_raise e"
  by (rule ext) (simp add: exec_bind_def exec_raise_def)

lemma exec_bind_return: "exec_bind (exec_return v) f = f v"
  by (rule ext) (simp add: exec_bind_def exec_return_def)

lemma unfold_missing_step: "unfold t d sz None = exec_raise (TypeError ''step'')"
  by (simp add: unfold_def)

lemma unpack5_fails:
  "length xs \<noteq> 5 \<Longrightarrow>
   exec_bind (unpack5 xs) f s =
     (Inl (ValueError (if length xs < 5 then NotEnoughValues 5 (length xs)
                       else TooManyValues 5)),
      s\<lparr>trace := trace s @ [Destructure]\<rparr>)"
  by (simp add: unpack5_def exec_bind_def emit_def exec_raise_def)

lemma unpack5_binds:
  "length xs = 5 \<Longrightarrow>
   exec_bind (unpack5 xs) f s =
     f (xs ! 0, xs ! 1, xs ! 2, xs ! 3, xs ! 4) (s\<lparr>trace := trace s @ [Destructure]\<rparr>)"
  by (simp add: unpack5_def exec_bind_def emit_def exec_return_def)

section \<open>The integer square root\<close>

lemma sqrt_down_le: "sqrt_down n k * sqrt_down n k \<le> n"
  by (induction k) auto

lemma sqrt_down_max: "j \<le> k \<Longrightarrow> j * j \<le> n \<Longrightarrow> j \<le> sqrt_down n k"
proof (induction k)
  case 0
  then show ?case by simp
next
  case (Suc k)
  show ?case
  proof (cases "Suc k * Suc k \<le> n")
    case True
    with Suc.prems show ?thesis by simp
  next
    case False
    with Suc.prems have "j \<noteq> Suc k" by auto
    with Suc.prems have "j \<le> k" by simp
    with Suc False show ?thesis by simp
  qed
qed

lemma floor_sqrt_correct:
  "floor_sqrt n * floor_sqrt n \<le> n \<and> n < Suc (floor_sqrt n) * Suc (floor_sqrt n)"
proof -
  have "\<not> Suc (floor_sqrt n) * Suc (floor_sqrt n) \<le> n"
  proof
    assume a: "Suc (floor_sqrt n) * Suc (floor_sqrt n) \<le> n"
    then have "Suc (floor_sqrt n) \<le> n"
      by (metis le_square le_trans)
    from this a have "Suc (floor_sqrt n) \<le> sqrt_down n n" by (rule sqrt_down_max)
    then show False by (simp add: floor_sqrt_def)
  qed
  then show ?thesis by (simp add: floor_sqrt_def sqrt_down_le)
qed

lemma floor_sqrt_square: "floor_sqrt (k * k) = k"
proof -
  have "k \<le> floor_sqrt (k * k)"
    unfolding floor_sqrt_def by (rule sqrt_down_max) (simp_all add: le_square)
  moreover have "floor_sqrt (k * k) \<le> k"
  proof (rule ccontr)
    assume "\<not> floor_sqrt (k * k) \<le> k"
    then have le: "Suc k \<le> floor_sqrt (k * k)" by simp
    from le le have "Suc k * Suc k \<le> floor_sqrt (k * k) * floor_sqrt (k * k)"
      by (rule mult_le_mono)
    also have "\<dots> \<le> k * k" using floor_sqrt_correct [of "k * k"] by simp
    finally show False by simp
  qed
  ultimately show ?thesis by simp
qed

lemma floor_sqrt_16: "floor_sqrt 16 = 4"
  using floor_sqrt_square [of 4] by simp

lemma num_patches_side_init:
  "num_patches_side (fst (init p ps td ic sl rd g)) = floor_sqrt p"
  by (simp add: init_def new_linear_def)

section \<open>What forward does, by the rank of its input\<close>

text \<open>
  A shape that does not have five entries stops \<^verbatim>\<open>forward\<close> at its first statement.
\<close>

lemma forward_not5:
  "length (shape x) \<noteq> 5 \<Longrightarrow>
   forward x s =
     (Inl (ValueError (if length (shape x) < 5 then NotEnoughValues 5 (length (shape x))
                       else TooManyValues 5)),
      s\<lparr>trace := trace s @ [Destructure]\<rparr>)"
  unfolding forward_def by (rule unpack5_fails)

text \<open>
  A shape with five entries reaches the assertion, with \<^verbatim>\<open>height\<close> the fifth entry and
  \<^verbatim>\<open>width\<close> the fourth. Past the assertion, the call of \<^verbatim>\<open>unfold\<close> with two arguments
  ends the run.
\<close>

lemma forward_5:
  "length (shape x) = 5 \<Longrightarrow>
   forward x s =
     (Inl (if num_patches_side (self s) = 0 then ZeroDivisionError
           else if shape x ! 4 mod num_patches_side (self s) = 0 \<and>
                   shape x ! 3 mod num_patches_side (self s) = 0
           then TypeError ''step''
           else AssertionError divisible_msg),
      s\<lparr>trace := trace s @ [Destructure, AssertDivisible]\<rparr>)"
  unfolding forward_def
  by (simp add: unpack5_binds unfold_missing_step exec_bind_raise)
     (simp add: exec_bind_def emit_def attr_def lift_def py_mod_def assert_stmt_def
        exec_return_def exec_raise_def)

text \<open>
  The normalisation step on its own: in evaluation mode it leaves the module as it is,
  in training mode it counts the batch.
\<close>

lemma call_norm_eval_keeps_module:
  "\<not> training (self s) \<Longrightarrow> self (snd (call_norm x s)) = self s"
  by (simp add: call_norm_def exec_bind_def emit_def attr_def exec_raise_def exec_return_def)

lemma call_norm_training_counts:
  "training (self s) \<Longrightarrow> length (shape x) = 3 \<Longrightarrow>
   num_batches_tracked (norm (self (snd (call_norm x s)))) =
     num_batches_tracked (norm (self s)) + 1"
  by (simp add: call_norm_def exec_bind_def emit_def attr_def exec_raise_def exec_return_def
      set_norm_def)

lemma num_parameters_init:
  "num_parameters (fst (init p ps td ic sl rd g)) =
   claimed_parameter_count (fst (init p ps td ic sl rd g)) + 2 * p"
  by (simp add: init_def new_linear_def new_batchnorm1d_def num_parameters_def parameters_def
      linear_parameters_def numel_def claimed_parameter_count_def linear_layers_def
      linear_count_def algebra_simps)

section \<open>The claims\<close>

text \<open>
  C1. The specification and the class docstring promise that a square image whose sides
  the per-side patch count divides comes back as a tensor of shape
  (batch, seq_len, reduced_dim). The code does not get there: on the image of shape
  (2, 3, 64, 64), with 64 divisible by the per-side count 4 of the docstring's module,
  \<^verbatim>\<open>forward\<close> ends in the \<^verbatim>\<open>ValueError\<close> of its first statement, having run nothing else.
\<close>

theorem forward_square_image_raises:
  "64 mod num_patches_side docstring_model = 0 \<and>
   forward \<lparr>shape = [2, 3, 64, 64], content = Given ''x''\<rparr> (fresh docstring_model) =
     (Inl (ValueError (NotEnoughValues 5 4)),
      \<lparr>self = docstring_model, trace = [Destructure]\<rparr>)"
  by (simp add: forward_not5 fresh_def docstring_model_def num_patches_side_init floor_sqrt_16)

text \<open>
  C2. On every input of rank 4, \<^verbatim>\<open>forward\<close> raises the \<^verbatim>\<open>ValueError\<close> of unpacking four
  values into five names at its first statement: the log holds the destructuring and
  nothing after it (no assertion, no patch extraction, no linear projection), and the
  module is unchanged. And on no input and in no state does \<^verbatim>\<open>forward\<close> return a tensor.
\<close>

theorem forward_rank4_raises_at_destructuring:
  "length (shape x) = 4 \<Longrightarrow>
   forward x s =
     (Inl (ValueError (NotEnoughValues 5 4)), s\<lparr>trace := trace s @ [Destructure]\<rparr>) \<and>
   (\<forall>y t. \<exists>e. fst (forward y t) = Inl e)"
proof (intro conjI allI)
  assume "length (shape x) = 4"
  then show "forward x s =
     (Inl (ValueError (NotEnoughValues 5 4)), s\<lparr>trace := trace s @ [Destructure]\<rparr>)"
    by (simp add: forward_not5)
next
  fix y t
  show "\<exists>e. fst (forward y t) = Inl e"
  proof (cases "length (shape y) = 5")
    case True
    then show ?thesis by (simp add: forward_5)
  next
    case False
    then show ?thesis by (simp add: forward_not5)
  qed
qed

text \<open>The docstring's module on an image of shape (1, 3, 64, 64).\<close>

theorem forward_rank4_raises_at_destructuring_witness:
  "forward \<lparr>shape = [1, 3, 64, 64], content = Given ''x''\<rparr> (fresh docstring_model) =
     (Inl (ValueError (NotEnoughValues 5 4)),
      \<lparr>self = docstring_model, trace = [Destructure]\<rparr>) \<and>
   (\<forall>y t. \<exists>e. fst (forward y t) = Inl e)"
  using forward_rank4_raises_at_destructuring
    [of "\<lparr>shape = [1, 3, 64, 64], content = Given ''x''\<rparr>" "fresh docstring_model"]
  by (simp add: fresh_def)

text \<open>
  C3. The specification has an image whose height or width the per-side patch count
  does not divide answered by the shape-validation error, and the code writes that
  assertion as its second statement. It is never reached: on the image of shape
  (1, 3, 65, 65), with 65 not divisible by the per-side count 4 of the docstring's
  module, \<^verbatim>\<open>forward\<close> ends in the \<^verbatim>\<open>ValueError\<close> of the destructuring before it, the log
  holding no assertion, and no \<^verbatim>\<open>AssertionError\<close> with the assertion's message comes out.
\<close>

theorem forward_indivisible_image_raises:
  "65 mod num_patches_side docstring_model \<noteq> 0 \<and>
   forward \<lparr>shape = [1, 3, 65, 65], content = Given ''x''\<rparr> (fresh docstring_model) =
     (Inl (ValueError (NotEnoughValues 5 4)),
      \<lparr>self = docstring_model, trace = [Destructure]\<rparr>) \<and>
   fst (forward \<lparr>shape = [1, 3, 65, 65], content = Given ''x''\<rparr> (fresh docstring_model)) \<noteq>
     Inl (AssertionError divisible_msg)"
  by (simp add: forward_not5 fresh_def)
     (simp add: docstring_model_def num_patches_side_init floor_sqrt_16)

text \<open>
  C4, as amended. After construction the learnable parameters number what the
  specification counts (the four linear layers and the positional encoding) and, on top
  of it, the weight and the bias of the batch normalisation: twice the patch count.
\<close>

theorem num_parameters_after_init:
  "num_parameters (fst (init p ps td ic sl rd g)) =
   claimed_parameter_count (fst (init p ps td ic sl rd g)) + 2 * p"
  by (rule num_parameters_init)

text \<open>
  C4 as the specification states it fails on the docstring's module, whose batch
  normalisation adds 32 parameters to the count.
\<close>

theorem parameter_count_counterexample:
  "num_parameters docstring_model \<noteq> claimed_parameter_count docstring_model"
  by (simp add: docstring_model_def num_parameters_init)

text \<open>
  C5. Two modules that differ in the positional encoding only give the same outcome and
  the same log on the same input, and are left differing in the positional encoding
  only: \<^verbatim>\<open>forward\<close> never reads it.
\<close>

theorem forward_ignores_positional_encoding:
  "fst (forward x \<lparr>self = m\<lparr>positional_encoding := p\<rparr>, trace = l\<rparr>) =
     fst (forward x \<lparr>self = m, trace = l\<rparr>) \<and>
   trace (snd (forward x \<lparr>self = m\<lparr>positional_encoding := p\<rparr>, trace = l\<rparr>)) =
     trace (snd (forward x \<lparr>self = m, trace = l\<rparr>)) \<and>
   self (snd (forward x \<lparr>self = m\<lparr>positional_encoding := p\<rparr>, trace = l\<rparr>)) =
     (self (snd (forward x \<lparr>self = m, trace = l\<rparr>)))\<lparr>positional_encoding := p\<rparr>"
proof (cases "length (shape x) = 5")
  case True
  then show ?thesis by (simp add: forward_5)
next
  case False
  then show ?thesis by (simp add: forward_not5)
qed

text \<open>
  C6. In evaluation mode a call of \<^verbatim>\<open>forward\<close> leaves the module, its parameters and
  its normalisation statistics as they were, and a second call on the same input ends
  as the first did: the same outcome, element for element. (By C2 that outcome is the
  same exception.)
\<close>

theorem forward_twice_same_outcome:
  "\<not> training (self s) \<Longrightarrow>
   self (snd (forward x s)) = self s \<and>
   fst (forward x (snd (forward x s))) = fst (forward x s)"
proof (cases "length (shape x) = 5")
  case True
  then show ?thesis by (simp add: forward_5)
next
  case False
  then show ?thesis by (simp add: forward_not5)
qed

text \<open>The docstring's module, put in evaluation mode, called twice.\<close>

theorem forward_twice_same_outcome_witness:
  "self (snd (forward \<lparr>shape = [1, 3, 64, 64], content = Given ''x''\<rparr>
      (fresh (docstring_model\<lparr>training := False\<rparr>)))) = docstring_model\<lparr>training := False\<rparr> \<and>
   fst (forward \<lparr>shape = [1, 3, 64, 64], content = Given ''x''\<rparr>
      (snd (forward \<lparr>shape = [1, 3, 64, 64], content = Given ''x''\<rparr>
        (fresh (docstring_model\<lparr>training := False\<rparr>))))) =
   fst (forward \<lparr>shape = [1, 3, 64, 64], content = Given ''x''\<rparr>
      (fresh (docstring_model\<lparr>training := False\<rparr>)))"
  using forward_twice_same_outcome
    [of "fresh (docstring_model\<lparr>training := False\<rparr>)"
        "\<lparr>shape = [1, 3, 64, 64], content = Given ''x''\<rparr>"]
  by (simp add: fresh_def)

text \<open>
  C7. The specification has the divisibility check as the only way \<^verbatim>\<open>forward\<close> can
  fail. The code fails on an input that passes it: a module of 4 patches of side 16 and
  an image of shape (1, 3, 32, 32), whose sides the per-side count 2 divides, end in the
  \<^verbatim>\<open>ValueError\<close> of the first statement.
\<close>

theorem forward_divisible_input_raises:
  "32 mod num_patches_side (fst (init 4 16 64 3 10 8 0)) = 0 \<and>
   forward \<lparr>shape = [1, 3, 32, 32], content = Given ''x''\<rparr> (fresh (fst (init 4 16 64 3 10 8 0))) =
     (Inl (ValueError (NotEnoughValues 5 4)),
      \<lparr>self = fst (init 4 16 64 3 10 8 0), trace = [Destructure]\<rparr>)"
  using floor_sqrt_square [of 2]
  by (simp add: forward_not5 fresh_def num_patches_side_init)

text \<open>
  C8. The docstring's example, a module of 16 patches of side 16 with sequence length
  128 and reduced width 128 applied to an image of shape (1, 3, 256, 256), is to give a
  tensor of shape (1, 128, 128). The code raises a \<^verbatim>\<open>ValueError\<close> instead.
\<close>

theorem forward_docstring_example_raises:
  "256 mod num_patches_side docstring_model = 0 \<and>
   seq_len docstring_model = 128 \<and> reduced_dim docstring_model = 128 \<and>
   fst (forward \<lparr>shape = [1, 3, 256, 256], content = Given ''x''\<rparr> (fresh docstring_model)) =
     Inl (ValueError (NotEnoughValues 5 4))"
  by (simp add: forward_not5 num_patches_side_init floor_sqrt_16)
     (simp add: docstring_model_def init_def new_linear_def floor_sqrt_16)

text \<open>
  C9. The example at the end of the file, sequence length 50000 and reduced width 256
  on an image of shape (1, 3, 64, 64), expects the shape (1, 50000, 256). The code
  raises a \<^verbatim>\<open>ValueError\<close> instead.
\<close>

theorem forward_example_usage_raises:
  "64 mod num_patches_side (fst (init 16 16 512 3 50000 256 0)) = 0 \<and>
   fst (forward \<lparr>shape = [1, 3, 64, 64], content = Given ''dummy_img''\<rparr>
     (fresh (fst (init 16 16 512 3 50000 256 0)))) =
     Inl (ValueError (NotEnoughValues 5 4))"
  by (simp add: forward_not5 num_patches_side_init floor_sqrt_16)

text \<open>
  C10. Loading the file is not free of effects. Whatever the state of the random
  generator, it constructs a module with sequence length 50000, draws an image of shape
  (1, 3, 64, 64) and calls \<^verbatim>\<open>forward\<close> on it; the outcome of the load is the outcome of
  that call, so the load fails when the call raises. As the call does raise, the load
  ends in the \<^verbatim>\<open>ValueError\<close> and prints nothing.
\<close>

theorem module_level_runs_forward:
  "module_level g =
     (Inl (ValueError (NotEnoughValues 5 4)),
      \<lparr>self = fst (init 16 16 512 3 50000 256 g),
       trace = [Construct, RandnCall, Destructure]\<rparr>) \<and>
   fst (module_level g) =
     map_sum id (\<lambda>_. ())
       (fst (forward (fst (randn [1, 3, 64, 64] (snd (init 16 16 512 3 50000 256 g))))
          \<lparr>self = fst (init 16 16 512 3 50000 256 g), trace = [Construct, RandnCall]\<rparr>)) \<and>
   shape (fst (randn [1, 3, 64, 64] (snd (init 16 16 512 3 50000 256 g)))) = [1, 3, 64, 64] \<and>
   seq_len (self (snd (module_level g))) = 50000"
proof -
  have run: "module_level g =
     exec_bind (forward (fst (randn [1, 3, 64, 64] (snd (init 16 16 512 3 50000 256 g)))))
       print_shape
       \<lparr>self = fst (init 16 16 512 3 50000 256 g), trace = [Construct, RandnCall]\<rparr>"
    by (simp add: module_level_def Let_def split: prod.splits)
  have sl: "seq_len (fst (init 16 16 512 3 50000 256 g)) = 50000"
    by (simp add: init_def new_linear_def)
  show ?thesis
    unfolding run
    by (simp add: exec_bind_def forward_not5 randn_def sl)
qed

end
